theory Spec2Isabelle
  imports Main "HOL-Library.AList"
begin

section \<open>Python values used by the PDF backend\<close>

text \<open>
  A Python \<open>str\<close> is modelled as a \<open>string\<close> whose characters are the code points
  U+0000 .. U+00FF; a \<open>bytes\<close> value is a \<open>string\<close> as well, one character per byte.
  Exceptions are values of type \<open>exn\<close>; a computation that may raise returns \<open>exn + 'a\<close>.
\<close>

datatype exn = AttributeError | KeyError | TypeError | AssertionError | IndexError

primrec mapE :: "('a \<Rightarrow> 'e + 'b) \<Rightarrow> 'a list \<Rightarrow> 'e + 'b list" where
  "mapE f [] = Inr []"
| "mapE f (x # xs) =
     (case f x of Inl e \<Rightarrow> Inl e
      | Inr y \<Rightarrow> (case mapE f xs of Inl e \<Rightarrow> Inl e | Inr ys \<Rightarrow> Inr (y # ys)))"

abbreviation newline :: char where "newline \<equiv> CHR 0x0A"
abbreviation carriage_return :: char where "carriage_return \<equiv> CHR 0x0D"
abbreviation tab :: char where "tab \<equiv> CHR 0x09"
abbreviation backspace :: char where "backspace \<equiv> CHR 0x08"
abbreviation form_feed :: char where "form_feed \<equiv> CHR 0x0C"
abbreviation backslash :: char where "backslash \<equiv> CHR 0x5C"

text \<open>\<open>str(n)\<close> for a natural number: decimal digits, no leading zero.\<close>

fun dec :: "nat \<Rightarrow> string" where
  "dec n = (if n < 10 then [char_of (48 + n)]
            else dec (n div 10) @ [char_of (48 + n mod 10)])"

declare dec.simps [simp del]

text \<open>\<open>int.__str__\<close>: a minus sign only when negative.\<close>

definition str_int :: "int \<Rightarrow> string" where
  "str_int i = (if i < 0 then CHR ''-'' # dec (nat (- i)) else dec (nat i))"

text \<open>The format specification \<open>{:0wd}\<close>: sign-aware zero padding to a minimum width.\<close>

definition format_0d :: "nat \<Rightarrow> int \<Rightarrow> string" where
  "format_0d w i =
     (if i < 0
      then CHR ''-'' # replicate (w - 1 - length (dec (nat (- i)))) (CHR ''0'') @ dec (nat (- i))
      else replicate (w - length (dec (nat i))) (CHR ''0'') @ dec (nat i))"

text \<open>\<open>sep.join(parts)\<close>.\<close>

fun join :: "string \<Rightarrow> string list \<Rightarrow> string" where
  "join sep [] = []"
| "join sep [x] = x"
| "join sep (x # y # ys) = x @ sep @ join sep (y # ys)"

text \<open>
  \<open>s.replace(old, new)\<close> where \<open>old\<close> is one character, which is the only way the
  source calls it.
\<close>

definition str_replace :: "char \<Rightarrow> string \<Rightarrow> string \<Rightarrow> string" where
  "str_replace old new s = concat (map (\<lambda>c. if c = old then new else [c]) s)"

text \<open>\<open>s.encode('utf_8')\<close> on code points below U+0100: one byte or two.\<close>

definition utf_8_char :: "char \<Rightarrow> string" where
  "utf_8_char c =
     (if of_char c < (128 :: nat) then [c]
      else [char_of (192 + of_char c div (64 :: nat)), char_of (128 + of_char c mod (64 :: nat))])"

definition utf_8 :: "string \<Rightarrow> string" where
  "utf_8 s = concat (map utf_8_char s)"

section \<open>cos.py: the object model\<close>

text \<open>
  \<open>Object.__init__\<close> sets \<open>generation\<close> and \<open>identifier\<close> (\<open>None\<close> for a direct
  object). Every class that runs it carries these attributes as an \<open>obj_attrs\<close> field.
  \<open>Null.__init__\<close> is \<open>pass\<close>, so a \<open>Null\<close> has neither attribute. A \<open>Reference\<close>
  holds an identifier and a generation; its document is the one it is used with.
  A \<open>Real\<close> carries the text that \<open>float.__str__\<close> gives for it, which is all the
  encoder reads of a float. A \<open>Stream\<close> carries the contents of its buffer.
\<close>

datatype obj_attrs = Attrs (obj_identifier: "nat option") (obj_generation: nat)

datatype cos =
    Boolean obj_attrs bool
  | Integer obj_attrs int
  | Real obj_attrs string
  | String obj_attrs string
  | Name obj_attrs string
  | Array obj_attrs "cos list"
  | Dictionary obj_attrs "(string \<times> cos) list"
  | Stream obj_attrs string
  | Null
  | Reference nat nat

abbreviation direct :: obj_attrs where "direct \<equiv> Attrs None 0"

text \<open>The attributes set by \<open>Object.__init__\<close>, when it ran.\<close>

fun attrs_of :: "cos \<Rightarrow> obj_attrs option" where
  "attrs_of (Boolean a v) = Some a"
| "attrs_of (Integer a v) = Some a"
| "attrs_of (Real a v) = Some a"
| "attrs_of (String a v) = Some a"
| "attrs_of (Name a v) = Some a"
| "attrs_of (Array a v) = Some a"
| "attrs_of (Dictionary a v) = Some a"
| "attrs_of (Stream a v) = Some a"
| "attrs_of Null = None"
| "attrs_of (Reference i g) = None"

text \<open>\<open>Object.is_direct\<close>: reading \<open>self.identifier\<close> raises when it was never set.\<close>

definition is_direct :: "cos \<Rightarrow> exn + bool" where
  "is_direct obj = (case attrs_of obj of None \<Rightarrow> Inl AttributeError
                    | Some a \<Rightarrow> Inr (obj_identifier a = None))"

text \<open>\<open>Reference.bytes\<close>.\<close>

definition Reference_bytes :: "nat \<Rightarrow> nat \<Rightarrow> string" where
  "Reference_bytes i g = utf_8 (dec i @ '' '' @ dec g @ '' R'')"

text \<open>\<open>String._bytes\<close>, up to the wrapping in parentheses: the variable \<open>escaped\<close>.\<close>

definition String_escape :: "string \<Rightarrow> string" where
  "String_escape v =
     (let escaped = str_replace newline [backslash, CHR ''n''] v;
          escaped = str_replace carriage_return [backslash, CHR ''r''] escaped;
          escaped = str_replace tab [backslash, CHR ''t''] escaped;
          escaped = str_replace backspace [backslash, CHR ''b''] escaped;
          escaped = str_replace form_feed [backslash, CHR ''f''] escaped
      in foldl (\<lambda>escaped char. str_replace char [backslash, char] escaped) escaped
           [backslash, CHR ''('', CHR '')''])"

text \<open>\<open>Name(key).bytes()\<close> of a direct name.\<close>

definition Name_bytes :: "string \<Rightarrow> string" where
  "Name_bytes name = utf_8 (CHR ''/'' # name)"

text \<open>
  The body of \<open>Dictionary._bytes\<close>, given each key with the bytes of its value.
\<close>

definition Dictionary_join :: "(string \<times> string) list \<Rightarrow> string" where
  "Dictionary_join kvs =
     ''<< '' @ join '' '' (map (\<lambda>(key, value). Name_bytes key @ '' '' @ value) kvs) @ '' >>''"

lemma mapE_cong [fundef_cong]:
  "xs = ys \<Longrightarrow> (\<And>x. x \<in> set ys \<Longrightarrow> f x = g x) \<Longrightarrow> mapE f xs = mapE g ys"
  by (induction ys arbitrary: xs) (auto split: sum.splits)

text \<open>
  \<open>Object.bytes\<close> (and \<open>Reference.bytes\<close> for a reference held in a container):
  the bytes at the place of use. \<open>Object__bytes\<close> is the \<open>_bytes\<close> method of each class.
\<close>

fun Object_bytes :: "cos \<Rightarrow> exn + string"
  and Object__bytes :: "cos \<Rightarrow> exn + string" where
  "Object_bytes (Reference i g) = Inr (Reference_bytes i g)"
| "Object_bytes Null = Inl AttributeError"
| "Object_bytes (Boolean a v) =
     (case obj_identifier a of None \<Rightarrow> Object__bytes (Boolean a v)
      | Some i \<Rightarrow> Inr (Reference_bytes i (obj_generation a)))"
| "Object_bytes (Integer a v) =
     (case obj_identifier a of None \<Rightarrow> Object__bytes (Integer a v)
      | Some i \<Rightarrow> Inr (Reference_bytes i (obj_generation a)))"
| "Object_bytes (Real a v) =
     (case obj_identifier a of None \<Rightarrow> Object__bytes (Real a v)
      | Some i \<Rightarrow> Inr (Reference_bytes i (obj_generation a)))"
| "Object_bytes (String a v) =
     (case obj_identifier a of None \<Rightarrow> Object__bytes (String a v)
      | Some i \<Rightarrow> Inr (Reference_bytes i (obj_generation a)))"
| "Object_bytes (Name a v) =
     (case obj_identifier a of None \<Rightarrow> Object__bytes (Name a v)
      | Some i \<Rightarrow> Inr (Reference_bytes i (obj_generation a)))"
| "Object_bytes (Array a v) =
     (case obj_identifier a of None \<Rightarrow> Object__bytes (Array a v)
      | Some i \<Rightarrow> Inr (Reference_bytes i (obj_generation a)))"
| "Object_bytes (Dictionary a v) =
     (case obj_identifier a of None \<Rightarrow> Object__bytes (Dictionary a v)
      | Some i \<Rightarrow> Inr (Reference_bytes i (obj_generation a)))"
| "Object_bytes (Stream a v) =
     (case obj_identifier a of None \<Rightarrow> Object__bytes (Stream a v)
      | Some i \<Rightarrow> Inr (Reference_bytes i (obj_generation a)))"
| "Object__bytes (Boolean a v) = Inr (if v then ''true'' else ''false'')"
| "Object__bytes (Integer a v) = Inr (utf_8 (str_int v))"
| "Object__bytes (Real a v) = Inr (utf_8 v)"
| "Object__bytes (String a v) = Inr (utf_8 (''('' @ String_escape v @ '')''))"
| "Object__bytes (Name a v) = Inr (Name_bytes v)"
| "Object__bytes (Array a v) =
     (case mapE Object_bytes v of Inl e \<Rightarrow> Inl e
      | Inr elems \<Rightarrow> Inr (''['' @ join '' '' elems @ '']''))"
| "Object__bytes (Dictionary a v) =
     (case mapE Object_bytes (map snd v) of Inl e \<Rightarrow> Inl e
      | Inr vals \<Rightarrow> Inr (Dictionary_join (zip (map fst v) vals)))"
| "Object__bytes (Stream a v) =
     Inr (Dictionary_join [(''Length'', utf_8 (str_int (int (length v))))]
          @ [newline] @ ''stream'' @ [newline] @ v @ [newline] @ ''endstream'')"
| "Object__bytes Null = Inr ''null''"
| "Object__bytes (Reference i g) = Inl AttributeError"

text \<open>
  \<open>Object.indirect_bytes\<close>. \<open>format\<close> prints the identifier \<open>None\<close> of a direct
  object as the text \<open>None\<close>.
\<close>

definition format_identifier :: "nat option \<Rightarrow> string" where
  "format_identifier i = (case i of None \<Rightarrow> ''None'' | Some n \<Rightarrow> dec n)"

definition indirect_header :: "obj_attrs \<Rightarrow> string" where
  "indirect_header a =
     utf_8 (format_identifier (obj_identifier a) @ '' '' @ dec (obj_generation a) @ '' obj'' @ [newline])"

definition indirect_bytes :: "cos \<Rightarrow> exn + string" where
  "indirect_bytes obj =
     (case attrs_of obj of None \<Rightarrow> Inl AttributeError
      | Some a \<Rightarrow> (case Object__bytes obj of Inl e \<Rightarrow> Inl e
                   | Inr body \<Rightarrow> Inr (indirect_header a @ body @ [newline] @ ''endobj'')))"

text \<open>\<open>obj.generation\<close> and \<open>obj.reference\<close>, as attribute reads that may raise.\<close>

fun generation :: "cos \<Rightarrow> exn + nat" where
  "generation (Reference i g) = Inr g"
| "generation obj = (case attrs_of obj of None \<Rightarrow> Inl AttributeError
                     | Some a \<Rightarrow> Inr (obj_generation a))"

definition reference :: "cos \<Rightarrow> exn + cos" where
  "reference obj =
     (case attrs_of obj of None \<Rightarrow> Inl AttributeError
      | Some a \<Rightarrow> (case obj_identifier a of None \<Rightarrow> Inl AttributeError
                   | Some i \<Rightarrow> Inr (Reference i (obj_generation a))))"

section \<open>cos.py: XRefTable and Document\<close>

text \<open>
  The cross-reference table keeps the objects given to \<open>append\<close> and their addresses.
  Only \<open>generation\<close> is read from a kept object, and nothing assigns it after
  construction, so the table holds the object's value.
\<close>

record XRefTable =
  xref_objects :: "cos list"
  addresses :: "nat list"

definition XRefTable_init :: XRefTable where
  "XRefTable_init = \<lparr>xref_objects = [], addresses = []\<rparr>"

definition XRefTable_append :: "XRefTable \<Rightarrow> cos \<Rightarrow> nat \<Rightarrow> XRefTable" where
  "XRefTable_append xt obj address =
     \<lparr>xref_objects = xref_objects xt @ [obj], addresses = addresses xt @ [address]\<rparr>"

definition XRefTable_len :: "XRefTable \<Rightarrow> nat" where
  "XRefTable_len xt = length (xref_objects xt) + 1"

text \<open>One line of the loop in \<open>XRefTable.__str__\<close>.\<close>

definition xref_entry :: "cos \<times> nat \<Rightarrow> exn + string" where
  "xref_entry p =
     (case generation (fst p) of Inl e \<Rightarrow> Inl e
      | Inr g \<Rightarrow> Inr ([newline] @ format_0d 10 (int (snd p)) @ '' '' @ format_0d 5 (int g) @ '' n ''))"

definition XRefTable_str :: "XRefTable \<Rightarrow> exn + string" where
  "XRefTable_str xt =
     (case mapE xref_entry (zip (xref_objects xt) (addresses xt)) of Inl e \<Rightarrow> Inl e
      | Inr entries \<Rightarrow>
          Inr (''xref'' @ [newline] @ ''0 '' @ dec (length (xref_objects xt) + 1)
               @ [newline] @ ''0000000000 65535 f '' @ concat entries))"

definition XRefTable_bytes :: "XRefTable \<Rightarrow> exn + string" where
  "XRefTable_bytes xt = (case XRefTable_str xt of Inl e \<Rightarrow> Inl e | Inr s \<Rightarrow> Inr (utf_8 s))"

text \<open>
  A document. The registered objects live in \<open>objects\<close>; \<open>pages\<close> and \<open>catalog\<close> are
  the positions in \<open>objects\<close> of the two objects the attributes of the same name
  alias. \<open>d_identifier\<close> is the counter \<open>_identifier\<close>. A Python name always holds an
  object; where a position could lie outside \<open>objects\<close> the model returns \<open>IndexError\<close>.
\<close>

record Document =
  d_identifier :: nat
  objects :: "cos list"
  xref_table :: XRefTable
  pages :: nat
  catalog :: nat

definition next_identifier :: "Document \<Rightarrow> nat \<times> Document" where
  "next_identifier d = (d_identifier d + 1, d\<lparr>d_identifier := d_identifier d + 1\<rparr>)"

definition Document_append :: "Document \<Rightarrow> cos \<Rightarrow> Document" where
  "Document_append d obj = d\<lparr>objects := objects d @ [obj]\<rparr>"

text \<open>
  \<open>Object.__init__(self, document)\<close> with a document: \<open>mk\<close> builds the object of the
  calling class from its attributes. The result is the document, the position of the
  new object in \<open>objects\<close>, and the object's \<open>reference\<close> attribute.
\<close>

definition Object_init :: "Document \<Rightarrow> (obj_attrs \<Rightarrow> cos) \<Rightarrow> Document \<times> nat \<times> cos" where
  "Object_init d mk =
     (let (i, d1) = next_identifier d;
          self = mk (Attrs (Some i) 0);
          d2 = Document_append d1 self
      in (d2, length (objects d1), Reference i 0))"

text \<open>\<open>self[key] = value\<close> and \<open>self[key]\<close> on an ordered dictionary.\<close>

fun Dictionary_setitem :: "cos \<Rightarrow> string \<Rightarrow> cos \<Rightarrow> cos" where
  "Dictionary_setitem (Dictionary a items) key v = Dictionary a (AList.update key v items)"
| "Dictionary_setitem obj key v = obj"

fun Dictionary_getitem :: "cos \<Rightarrow> string \<Rightarrow> exn + cos" where
  "Dictionary_getitem (Dictionary a items) key =
     (case map_of items key of None \<Rightarrow> Inl KeyError | Some v \<Rightarrow> Inr v)"
| "Dictionary_getitem obj key = Inl TypeError"

definition setitem_at :: "Document \<Rightarrow> nat \<Rightarrow> string \<Rightarrow> cos \<Rightarrow> Document" where
  "setitem_at d loc key v =
     d\<lparr>objects := (objects d)[loc := Dictionary_setitem (objects d ! loc) key v]\<rparr>"

definition Dictionary_init :: "Document \<Rightarrow> Document \<times> nat \<times> cos" where
  "Dictionary_init d = Object_init d (\<lambda>a. Dictionary a [])"

definition Catalog_init :: "Document \<Rightarrow> Document \<times> nat \<times> cos" where
  "Catalog_init d =
     (let (d1, loc, r) = Dictionary_init d
      in (setitem_at d1 loc ''Type'' (Name direct ''Catalog''), loc, r))"

definition Pages_init :: "Document \<Rightarrow> Document \<times> nat \<times> cos" where
  "Pages_init d =
     (let (d1, loc, r) = Dictionary_init d;
          d2 = setitem_at d1 loc ''Type'' (Name direct ''Pages'');
          d3 = setitem_at d2 loc ''Count'' (Integer direct 0);
          d4 = setitem_at d3 loc ''Kids'' (Array direct [])
      in (d4, loc, r))"

definition Font_init :: "Document \<Rightarrow> Document \<times> nat \<times> cos" where
  "Font_init d =
     (let (d1, loc, r) = Dictionary_init d
      in (setitem_at d1 loc ''Type'' (Name direct ''Font''), loc, r))"


definition Document_init :: Document where
  "Document_init =
     (let d0 = \<lparr>d_identifier = 0, objects = [], xref_table = XRefTable_init,
                 pages = 0, catalog = 0\<rparr>;
          (d1, p, pages_reference) = Pages_init d0;
          d2 = d1\<lparr>pages := p\<rparr>;
          (d3, c, catalog_reference) = Catalog_init d2;
          d4 = d3\<lparr>catalog := c\<rparr>
      in setitem_at d4 c ''Pages'' pages_reference)"

text \<open>
  \<open>Page.__init__(self, parent, width, height)\<close>: the page joins the document of its
  parent; \<open>parent.reference\<close> raises when the parent is a direct object.
\<close>

definition Page_init :: "Document \<Rightarrow> nat \<Rightarrow> string \<Rightarrow> string \<Rightarrow> exn + Document \<times> nat \<times> cos" where
  "Page_init d parent width height =
     (if length (objects d) \<le> parent then Inl IndexError
      else case reference (objects d ! parent) of Inl e \<Rightarrow> Inl e
        | Inr parent_reference \<Rightarrow>
            (let (d1, loc, r) = Dictionary_init d;
                 d2 = setitem_at d1 loc ''Type'' (Name direct ''Page'');
                 d3 = setitem_at d2 loc ''Parent'' parent_reference;
                 d4 = setitem_at d3 loc ''Resources'' (Dictionary direct []);
                 d5 = setitem_at d4 loc ''MediaBox''
                        (Array direct [Integer direct 0, Integer direct 0,
                                       Real direct width, Real direct height])
             in Inr (d5, loc, r)))"

text \<open>
  \<open>Pages.new_page\<close>, for the Pages node at position \<open>self\<close>. \<open>append\<close> exists on an
  Array only, and \<open>self['Count'] + 1\<close> is computed for an Integer; on a Real, which the
  source would add to and truncate, the model raises, as for the other classes.
\<close>

definition Pages_new_page :: "Document \<Rightarrow> nat \<Rightarrow> string \<Rightarrow> string \<Rightarrow> exn + Document \<times> nat \<times> cos" where
  "Pages_new_page d self width height =
     (case Page_init d self width height of Inl e \<Rightarrow> Inl e
      | Inr (d1, page, page_reference) \<Rightarrow>
          (case Dictionary_getitem (objects d1 ! self) ''Kids'' of Inl e \<Rightarrow> Inl e
           | Inr (Array a kids) \<Rightarrow>
               (let d2 = setitem_at d1 self ''Kids'' (Array a (kids @ [page_reference]))
                in case Dictionary_getitem (objects d2 ! self) ''Count'' of Inl e \<Rightarrow> Inl e
                   | Inr (Integer b n) \<Rightarrow>
                       Inr (setitem_at d2 self ''Count'' (Integer direct (n + 1)), page, page_reference)
                   | Inr other \<Rightarrow> Inl TypeError)
           | Inr other \<Rightarrow> Inl AttributeError))"

text \<open>
  \<open>Document.write(file)\<close>. The file is the bytes written to it so far, with the
  cursor at their end, so \<open>file.tell()\<close> is their length.
\<close>

definition out :: "string \<Rightarrow> string \<Rightarrow> string" where
  "out file s = file @ s @ [newline]"

fun write_objects :: "cos list \<Rightarrow> XRefTable \<Rightarrow> string \<Rightarrow> exn + XRefTable \<times> string" where
  "write_objects [] xt file = Inr (xt, file)"
| "write_objects (obj # objs) xt file =
     (let xt1 = XRefTable_append xt obj (length file)
      in case indirect_bytes obj of Inl e \<Rightarrow> Inl e
         | Inr b \<Rightarrow> write_objects objs xt1 (out file b))"

definition PDF_VERSION :: string where
  "PDF_VERSION = ''1.4''"

definition binary_marker :: string where
  "binary_marker = [CHR ''%'', CHR 0xDC, CHR 0xE1, CHR 0xD8, CHR 0xB7, newline]"

definition trailer_dict :: "Document \<Rightarrow> XRefTable \<Rightarrow> exn + cos" where
  "trailer_dict d xt =
     (if length (objects d) \<le> catalog d then Inl IndexError
      else case reference (objects d ! catalog d) of Inl e \<Rightarrow> Inl e
        | Inr root \<Rightarrow>
            Inr (Dictionary_setitem
                   (Dictionary_setitem (Dictionary direct []) ''Size''
                      (Integer direct (int (XRefTable_len xt))))
                   ''Root'' root))"

definition Document_write :: "Document \<Rightarrow> string \<Rightarrow> exn + Document \<times> string" where
  "Document_write d file =
     (let f1 = out file (utf_8 (''%PDF-'' @ PDF_VERSION));
          f2 = f1 @ binary_marker
      in case write_objects (objects d) (xref_table d) f2 of Inl e \<Rightarrow> Inl e
         | Inr (xt, f3) \<Rightarrow>
            (let xref_table_address = length f3
             in case XRefTable_bytes xt of Inl e \<Rightarrow> Inl e
                | Inr table \<Rightarrow>
                   (let f4 = out f3 table;
                        f5 = out f4 ''trailer''
                    in case trailer_dict d xt of Inl e \<Rightarrow> Inl e
                       | Inr t \<Rightarrow>
                          (case Object_bytes t of Inl e \<Rightarrow> Inl e
                           | Inr tb \<Rightarrow>
                              (let f6 = out f5 tb;
                                   f7 = out f6 ''startxref'';
                                   f8 = out f7 (utf_8 (dec xref_table_address));
                                   f9 = out f8 ''%%EOF''
                               in Inr (d\<lparr>xref_table := xt\<rparr>, f9))))))"

text \<open>
  \<open>Reference.target\<close>. Class \<open>Document\<close> defines \<open>append\<close>, \<open>next_identifier\<close> and
  \<open>write\<close> and nothing else, so reading \<open>self.document.get_indirect_object\<close> raises
  \<open>AttributeError\<close>. \<open>target_via\<close> is the body of the property over any lookup: the
  \<open>except Exception\<close> clause is \<open>pass\<close>, after which the property returns \<open>None\<close>.
\<close>

definition get_indirect_object :: "Document \<Rightarrow> nat \<Rightarrow> nat \<Rightarrow> exn + cos" where
  "get_indirect_object d i g = Inl AttributeError"

definition target_via :: "(nat \<Rightarrow> nat \<Rightarrow> exn + cos) \<Rightarrow> nat \<Rightarrow> nat \<Rightarrow> cos option" where
  "target_via lookup i g = (case lookup i g of Inl e \<Rightarrow> None | Inr obj \<Rightarrow> Some obj)"

definition Reference_target :: "Document \<Rightarrow> nat \<Rightarrow> nat \<Rightarrow> cos option" where
  "Reference_target d i g = target_via (get_indirect_object d) i g"

text \<open>
  \<open>Reference.__getitem__\<close> and \<open>Reference.__getattr__\<close>: subscripting \<open>None\<close> raises
  \<open>TypeError\<close>, reading an attribute of \<open>None\<close> raises \<open>AttributeError\<close>. \<open>read\<close> is
  the attribute read on the target.
\<close>

definition Reference_getitem :: "Document \<Rightarrow> nat \<Rightarrow> nat \<Rightarrow> string \<Rightarrow> exn + cos" where
  "Reference_getitem d i g name =
     (case Reference_target d i g of None \<Rightarrow> Inl TypeError
      | Some t \<Rightarrow> Dictionary_getitem t name)"

definition Reference_getattr :: "Document \<Rightarrow> nat \<Rightarrow> nat \<Rightarrow> (cos \<Rightarrow> exn + 'a) \<Rightarrow> exn + 'a" where
  "Reference_getattr d i g read =
     (case Reference_target d i g of None \<Rightarrow> Inl AttributeError | Some t \<Rightarrow> read t)"

section \<open>The backend: glyph strings\<close>

text \<open>
  The choice of \<open>char\<close> in the loop of \<open>Canvas.show_glyphs\<close>. The literal
  \<open>'\{:03d}'\<close> is a backslash followed by the format field \<open>{:03d}\<close>.
\<close>

definition glyph_char :: "int \<Rightarrow> string" where
  "glyph_char code =
     (if code < 0 then ''?''
      else if code > 127 then backslash # format_0d 3 code
      else (let char = [char_of code]
            in if char = [backslash] \<or> char = ''('' \<or> char = '')'' then backslash # char
               else char))"

text \<open>
  The string built by the loop, from each glyph's character code and the integer
  \<open>int(width - displ)\<close> that the loop computes in floating point.
\<close>

definition glyph_item :: "int \<times> int \<Rightarrow> string" where
  "glyph_item p = ''('' @ glyph_char (fst p) @ '') '' @ str_int (snd p) @ '' ''"

definition glyph_string :: "(int \<times> int) list \<Rightarrow> string" where
  "glyph_string glyphs = foldl (\<lambda>string p. string @ glyph_item p) [] glyphs"

section \<open>Reading a literal string back\<close>

text \<open>
  Modelled from the spec: the conformant reader's \<open>unescape\<close> of the body of a literal
  string, which the repository does not contain. A backslash followed by \<open>n\<close>, \<open>r\<close>,
  \<open>t\<close>, \<open>b\<close>, \<open>f\<close> stands for the control character, followed by a backslash or a
  parenthesis for that character, followed by one to three octal digits for the byte
  of that value, followed by an end of line for nothing; before any other character
  the backslash is dropped. An end of line that is not escaped reads as a line feed.
\<close>

definition is_octal :: "char \<Rightarrow> bool" where
  "is_octal c = (48 \<le> (of_char c :: nat) \<and> (of_char c :: nat) \<le> 55)"

definition octal_value :: "char \<Rightarrow> nat" where
  "octal_value c = of_char c - 48"

fun unescape :: "string \<Rightarrow> string" where
  "unescape [] = []"
| "unescape [c] = (if c = backslash then [] else if c = carriage_return then [newline] else [c])"
| "unescape (c # d # ds) =
     (if c = backslash then
        (if d = CHR ''n'' then newline # unescape ds
         else if d = CHR ''r'' then carriage_return # unescape ds
         else if d = CHR ''t'' then tab # unescape ds
         else if d = CHR ''b'' then backspace # unescape ds
         else if d = CHR ''f'' then form_feed # unescape ds
         else if d = backslash \<or> d = CHR ''('' \<or> d = CHR '')'' then d # unescape ds
         else if d = newline then unescape ds
         else if d = carriage_return then
           (case ds of [] \<Rightarrow> []
            | e # es \<Rightarrow> if e = newline then unescape es else unescape (e # es))
         else if is_octal d then
           (case ds of [] \<Rightarrow> [char_of (octal_value d)]
            | e # es \<Rightarrow>
                if is_octal e then
                  (case es of [] \<Rightarrow> [char_of (8 * octal_value d + octal_value e)]
                   | f # fs \<Rightarrow>
                       if is_octal f
                       then char_of (64 * octal_value d + 8 * octal_value e + octal_value f)
                              # unescape fs
                       else char_of (8 * octal_value d + octal_value e) # unescape (f # fs))
                else char_of (octal_value d) # unescape (e # es))
         else unescape (d # ds))
      else if c = carriage_return then
        (if d = newline then newline # unescape ds else newline # unescape (d # ds))
      else c # unescape (d # ds))"

text \<open>
  What \<open>String._bytes\<close> makes of one character that is not a control character, and
  the strings without line feed, carriage return, tab, backspace and form feed.
\<close>

definition escape_char :: "char \<Rightarrow> string" where
  "escape_char c =
     (if c = backslash \<or> c = CHR ''('' \<or> c = CHR '')'' then [backslash, c] else [c])"

definition control_free :: "string \<Rightarrow> bool" where
  "control_free s =
     list_all (\<lambda>c. c \<noteq> newline \<and> c \<noteq> carriage_return \<and> c \<noteq> tab \<and>
                    c \<noteq> backspace \<and> c \<noteq> form_feed) s"

section \<open>The backend: documents, pages and fonts\<close>

text \<open>
  A font of the layout layer, as far as the backend reads it: what \<open>is_core()\<close>
  returns and \<open>psFont.ps_name\<close>. \<open>font_key\<close> tells font objects apart as dictionary
  keys.
\<close>

record font =
  font_key :: nat
  is_core :: bool
  ps_name :: string

text \<open>
  The backend \<open>Page\<close>. \<open>pdf_page\<close> is the position of its page dictionary in the
  registry of the document; \<open>canvas\<close> is the text of its \<open>PageCanvas\<close>; \<open>page_width\<close>
  and \<open>page_height\<close> are \<open>width\<close> and \<open>height\<close>, kept as the text of \<open>float(width)\<close> and
  \<open>float(height)\<close>.
\<close>

record Page =
  pdf_page :: nat
  page_width :: string
  page_height :: string
  canvas :: string
  font_number :: nat
  font_names :: "(font \<times> string) list"

text \<open>
  The backend \<open>Document\<close>: \<open>doc_pages\<close> is its list \<open>pages\<close>, and \<open>fonts\<close> maps a font
  to the position of its Font dictionary in the registry.
\<close>

record Backend_Document =
  pdf_document :: Document
  doc_pages :: "Page list"
  fonts :: "(font \<times> nat) list"

definition Backend_Document_init :: Backend_Document where
  "Backend_Document_init = \<lparr>pdf_document = Document_init, doc_pages = [], fonts = []\<rparr>"

text \<open>The backend's \<open>Document.register_font\<close>.\<close>

definition Document_register_font :: "Backend_Document \<Rightarrow> font \<Rightarrow> exn + Backend_Document \<times> nat" where
  "Document_register_font bd font =
     (case map_of (fonts bd) font of
        Some font_rsc \<Rightarrow> Inr (bd, font_rsc)
      | None \<Rightarrow>
          if is_core font
          then (let (d1, font_rsc, r) = Font_init (pdf_document bd);
                    d2 = setitem_at d1 font_rsc ''Subtype'' (Name direct ''Type1'');
                    d3 = setitem_at d2 font_rsc ''BaseFont'' (Name direct (ps_name font))
                in Inr (bd\<lparr>pdf_document := d3, fonts := AList.update font font_rsc (fonts bd)\<rparr>,
                        font_rsc))
          else Inl AssertionError)"

text \<open>\<open>Canvas.translate\<close>, which \<open>Canvas.__init__\<close> calls with \<open>left\<close> and \<open>bottom\<close>.\<close>

definition translate :: "string \<Rightarrow> string \<Rightarrow> string" where
  "translate x y = ''1 0 0 1 '' @ x @ '' '' @ y @ '' cm'' @ [newline]"

text \<open>The backend's \<open>Page.__init__\<close>; the result names the new page by its index.\<close>

definition Backend_Page_init :: "Backend_Document \<Rightarrow> string \<Rightarrow> string \<Rightarrow> exn + Backend_Document \<times> nat" where
  "Backend_Page_init bd w h =
     (case Pages_new_page (pdf_document bd) (pages (pdf_document bd)) w h of Inl e \<Rightarrow> Inl e
      | Inr (d1, loc, r) \<Rightarrow>
          (let self = \<lparr>pdf_page = loc, page_width = w, page_height = h, canvas = translate ''0'' ''0'',
                       font_number = 1, font_names = []\<rparr>
           in Inr (bd\<lparr>pdf_document := d1, doc_pages := doc_pages bd @ [self]\<rparr>,
                   length (doc_pages bd))))"

text \<open>\<open>setdefault\<close> on an ordered dictionary: the dictionary afterwards and the value.\<close>

fun Dictionary_setdefault :: "cos \<Rightarrow> string \<Rightarrow> cos \<Rightarrow> exn + cos \<times> cos" where
  "Dictionary_setdefault (Dictionary a items) key dflt =
     (case map_of items key of
        Some v \<Rightarrow> Inr (Dictionary a items, v)
      | None \<Rightarrow> Inr (Dictionary a (items @ [(key, dflt)]), dflt))"
| "Dictionary_setdefault obj key dflt = Inl AttributeError"

text \<open>
  \<open>Page.register_font\<close> for the page of index \<open>p\<close>;
  \<open>self.document.backend_document\<close> is the backend document the page was made with.
\<close>

definition Page_register_font :: "Backend_Document \<Rightarrow> nat \<Rightarrow> font \<Rightarrow> exn + Backend_Document \<times> string" where
  "Page_register_font bd p font =
     (if length (doc_pages bd) \<le> p then Inl IndexError
      else
        (let page = doc_pages bd ! p
         in case map_of (font_names page) font of
              Some name \<Rightarrow> Inr (bd, name)
            | None \<Rightarrow>
               (case Document_register_font bd font of Inl e \<Rightarrow> Inl e
                | Inr (bd1, font_rsc) \<Rightarrow>
                   (let name = ''F'' @ dec (font_number page);
                        d = pdf_document bd1
                    in case Dictionary_getitem (objects d ! pdf_page page) ''Resources'' of
                         Inl e \<Rightarrow> Inl e
                       | Inr page_rsc \<Rightarrow>
                          (case Dictionary_setdefault page_rsc ''Font'' (Dictionary direct []) of
                             Inl e \<Rightarrow> Inl e
                           | Inr (page_rsc1, fonts_dict) \<Rightarrow>
                              (case reference (objects d ! font_rsc) of Inl e \<Rightarrow> Inl e
                               | Inr r \<Rightarrow>
                                  (case fonts_dict of
                                     Dictionary b fs \<Rightarrow>
                                       (let fonts_dict1 = Dictionary_setitem fonts_dict name r;
                                            page_rsc2 = Dictionary_setitem page_rsc1 ''Font'' fonts_dict1;
                                            d1 = setitem_at d (pdf_page page) ''Resources'' page_rsc2;
                                            page1 = page\<lparr>font_number := font_number page + 1,
                                                         font_names := AList.update font name (font_names page)\<rparr>
                                        in Inr (bd1\<lparr>pdf_document := d1,
                                                     doc_pages := (doc_pages bd1)[p := page1]\<rparr>, name))
                                   | _ \<Rightarrow> Inl TypeError)))))))"

text \<open>The Font dictionary that \<open>Document.register_font\<close> leaves in the registry.\<close>

definition Font_dict :: "nat \<Rightarrow> string \<Rightarrow> cos" where
  "Font_dict i name =
     Dictionary (Attrs (Some i) 0)
       [(''Type'', Name direct ''Font''), (''Subtype'', Name direct ''Type1''),
        (''BaseFont'', Name direct name)]"

text \<open>The entry \<open>name\<close> of \<open>Resources/Font\<close> in the dictionary of page \<open>p\<close>.\<close>

definition page_font_entry :: "Backend_Document \<Rightarrow> nat \<Rightarrow> string \<Rightarrow> cos option" where
  "page_font_entry bd p name =
     (case Dictionary_getitem (objects (pdf_document bd) ! pdf_page (doc_pages bd ! p))
             ''Resources'' of
        Inl e \<Rightarrow> None
      | Inr page_rsc \<Rightarrow>
          (case Dictionary_getitem page_rsc ''Font'' of Inl e \<Rightarrow> None
           | Inr fonts_dict \<Rightarrow>
               (case Dictionary_getitem fonts_dict name of Inl e \<Rightarrow> None
                | Inr v \<Rightarrow> Some v)))"

text \<open>
  Page \<open>p\<close> can take a font: its dictionary is registered and has a \<open>Resources\<close>
  dictionary whose \<open>Font\<close> entry, when there is one, is a dictionary.
\<close>

fun is_Dictionary :: "cos \<Rightarrow> bool" where
  "is_Dictionary (Dictionary a items) = True"
| "is_Dictionary obj = False"

definition page_ready :: "Backend_Document \<Rightarrow> nat \<Rightarrow> bool" where
  "page_ready bd p =
     (p < length (doc_pages bd) \<and>
      pdf_page (doc_pages bd ! p) < length (objects (pdf_document bd)) \<and>
      (case Dictionary_getitem (objects (pdf_document bd) ! pdf_page (doc_pages bd ! p))
              ''Resources'' of
         Inl e \<Rightarrow> False
       | Inr page_rsc \<Rightarrow>
           is_Dictionary page_rsc \<and>
           (case Dictionary_getitem page_rsc ''Font'' of Inl e \<Rightarrow> True
            | Inr fonts_dict \<Rightarrow> is_Dictionary fonts_dict)))"

text \<open>A core font, and a document with two new pages.\<close>

definition helvetica :: font where
  "helvetica = \<lparr>font_key = 0, is_core = True, ps_name = ''Helvetica''\<rparr>"

definition two_pages :: Backend_Document where
  "two_pages =
     (case Backend_Page_init Backend_Document_init ''200.0'' ''200.0'' of
        Inl e \<Rightarrow> Backend_Document_init
      | Inr (bd1, p) \<Rightarrow>
         (case Backend_Page_init bd1 ''100.0'' ''100.0'' of Inl e \<Rightarrow> bd1
          | Inr (bd2, q) \<Rightarrow> bd2))"

section \<open>Construction sessions and the page tree\<close>

text \<open>\<open>obj.identifier\<close> of a registered object, \<open>None\<close> when the attribute is not a number.\<close>

definition identifier_of :: "cos \<Rightarrow> nat option" where
  "identifier_of obj = (case attrs_of obj of None \<Rightarrow> None | Some a \<Rightarrow> obj_identifier a)"













section \<open>The layout of the written file\<close>

text \<open>
  The positions at which bodies start when each is written with a newline after it,
  the first at \<open>start\<close>; \<open>lines_of\<close> is what is written.
\<close>

fun offsets :: "nat \<Rightarrow> string list \<Rightarrow> nat list" where
  "offsets start [] = []"
| "offsets start (b # bs) = start # offsets (start + length b + 1) bs"

definition lines_of :: "string list \<Rightarrow> string" where
  "lines_of bodies = concat (map (\<lambda>b. b @ [newline]) bodies)"

text \<open>What \<open>write\<close> emits before the objects and after the cross-reference table.\<close>

definition file_header :: string where
  "file_header = utf_8 (''%PDF-'' @ PDF_VERSION) @ [newline] @ binary_marker"

definition file_trailer :: "string \<Rightarrow> nat \<Rightarrow> string" where
  "file_trailer tb address =
     ''trailer'' @ [newline] @ tb @ [newline] @ ''startxref'' @ [newline]
     @ utf_8 (dec address) @ [newline] @ ''%%EOF'' @ [newline]"

text \<open>One entry of the cross-reference table, without the newline before it.\<close>

definition xref_line :: "nat \<Rightarrow> nat \<Rightarrow> string" where
  "xref_line address g = format_0d 10 (int address) @ '' '' @ format_0d 5 (int g) @ '' n ''"

section \<open>Properties\<close>

subsection \<open>Glyph characters\<close>

lemma glyph_char_negative: "code < 0 \<Longrightarrow> glyph_char code = ''?''"
  by (simp add: glyph_char_def)

lemma glyph_char_ascii:
  "0 \<le> code \<Longrightarrow> code \<le> 127 \<Longrightarrow>
   glyph_char code =
     (if char_of code \<in> {backslash, CHR ''('', CHR '')''} then [backslash, char_of code]
      else [char_of code])"
  by (simp add: glyph_char_def Let_def)

text \<open>
  C3. The claim asks for a three-digit octal escape above code 127, so that code 200
  is written \<open>\310\<close>. \<open>show_glyphs\<close> formats the code with \<open>{:03d}\<close>, in decimal:
  the glyph of code 200 with adjustment 0 is written \<open>(\200) 0 \<close>.
\<close>

theorem show_glyphs_code_200_decimal:
  "glyph_string [(200, 0)] = ''('' @ [backslash] @ ''200) 0 '' \<and>
   glyph_char 200 \<noteq> backslash # ''310''"
  by code_simp

subsection \<open>Null\<close>

text \<open>
  C8. The claim gives a Null used directly the bytes \<open>null\<close>. \<open>Null.__init__\<close> does not
  run \<open>Object.__init__\<close>, so \<open>bytes()\<close> raises \<open>AttributeError\<close> when it reads
  \<open>identifier\<close>, also for an array that holds a Null; only \<open>_bytes()\<close> gives \<open>null\<close>.
\<close>

theorem Null_bytes_raises:
  "Object_bytes Null = Inl AttributeError \<and> is_direct Null = Inl AttributeError \<and>
   Object__bytes (Array direct [Null]) = Inl AttributeError \<and>
   Object__bytes Null = Inr ''null''"
  by (simp add: is_direct_def)

subsection \<open>References\<close>

lemma target_via_swallows: "lookup i g = Inl e \<Longrightarrow> target_via lookup i g = None"
  by (simp add: target_via_def)

text \<open>
  C4. The claim has a reference resolve to the registered value and an unknown
  identifier reported. In a new document the Pages node is registered under
  identifier 1, yet the target of its reference is \<open>None\<close>, item access through the
  reference raises \<open>TypeError\<close>, and the unknown identifier 99 gives \<open>None\<close> as well,
  with no error.
\<close>

theorem Reference_target_is_None:
  "reference (objects Document_init ! pages Document_init) = Inr (Reference 1 0) \<and>
   Reference_target Document_init 1 0 = None \<and>
   Reference_getitem Document_init 1 0 ''Type'' = Inl TypeError \<and>
   Reference_target Document_init 99 0 = None"
  by code_simp

subsection \<open>String escaping\<close>

text \<open>
  A string without the five control characters is read back as it was: only
  backslashes and parentheses are escaped in it.
\<close>

lemma str_replace_absent: "old \<notin> set s \<Longrightarrow> str_replace old new s = s"
  by (induction s) (auto simp add: str_replace_def)

lemma str_replace_Cons:
  "str_replace old new (c # s) = (if c = old then new else [c]) @ str_replace old new s"
  by (simp add: str_replace_def)

lemma str_replace_Nil [simp]: "str_replace old new [] = []"
  by (simp add: str_replace_def)

lemma str_replace_append:
  "str_replace old new (s @ t) = str_replace old new s @ str_replace old new t"
  by (simp add: str_replace_def)

lemma String_escape_plain:
  assumes "control_free s"
  shows "String_escape s = concat (map escape_char s)"
proof -
  from assms have "newline \<notin> set s" "carriage_return \<notin> set s" "tab \<notin> set s"
    "backspace \<notin> set s" "form_feed \<notin> set s"
    by (auto simp add: control_free_def list_all_iff)
  then have "String_escape s =
      str_replace (CHR '')'') [backslash, CHR '')'']
        (str_replace (CHR ''('') [backslash, CHR ''(''] (str_replace backslash [backslash, backslash] s))"
    by (simp add: String_escape_def str_replace_absent)
  also have "\<dots> = concat (map escape_char s)"
    by (induction s) (simp_all add: str_replace_Cons str_replace_append escape_char_def)
  finally show ?thesis .
qed

lemma unescape_plain_char:
  "c \<noteq> backslash \<Longrightarrow> c \<noteq> carriage_return \<Longrightarrow> unescape (c # s) = c # unescape s"
  by (cases s) simp_all

lemma unescape_escape_char:
  "c \<noteq> carriage_return \<Longrightarrow> unescape (escape_char c @ s) = c # unescape s"
  by (auto simp add: escape_char_def unescape_plain_char)

lemma unescape_String_escape_plain:
  "control_free s \<Longrightarrow> unescape (String_escape s) = s"
proof -
  assume cf: "control_free s"
  then have "unescape (concat (map escape_char s)) = s"
    by (induction s) (simp_all add: control_free_def unescape_escape_char)
  with cf show ?thesis by (simp add: String_escape_plain)
qed

text \<open>
  C2. The claim has the escapes applied in the order of the source and the escaped
  form read back as the original. The backslash of \<open>\n\<close> is itself escaped by the
  later replacement of backslashes: a line feed is written as backslash, backslash,
  \<open>n\<close>, which reads back as a backslash followed by \<open>n\<close>.
\<close>

theorem String_escape_newline_not_restored:
  "String_escape [newline] = [backslash, backslash, CHR ''n''] \<and>
   unescape (String_escape [newline]) = [backslash, CHR ''n''] \<and>
   unescape (String_escape [newline]) \<noteq> [newline]"
  by code_simp

subsection \<open>Writing a document twice\<close>

text \<open>
  C1. The claim has a second \<open>write\<close> of an unmodified document equal the first.
  \<open>write\<close> appends to the cross-reference table of the document and never empties
  it: after the first write of a new document the table has 3 entries, after the
  second 5, the objects are the same and the two outputs differ.
\<close>

theorem Document_write_second_differs:
  "(case Document_write Document_init [] of Inl e \<Rightarrow> False
    | Inr (d1, first) \<Rightarrow>
       (case Document_write d1 [] of Inl e \<Rightarrow> False
        | Inr (d2, second) \<Rightarrow>
            objects d1 = objects Document_init \<and> objects d2 = objects d1 \<and>
            first \<noteq> second \<and>
            XRefTable_len (xref_table d1) = 3 \<and> XRefTable_len (xref_table d2) = 5))"
  by code_simp

subsection \<open>Registration and the page tree\<close>

lemma Object_init_objects:
  "Object_init d mk =
     (d\<lparr>d_identifier := d_identifier d + 1,
        objects := objects d @ [mk (Attrs (Some (d_identifier d + 1)) 0)]\<rparr>,
      length (objects d), Reference (d_identifier d + 1) 0)"
  by (simp add: Object_init_def next_identifier_def Document_append_def Let_def)

lemma Dictionary_init_eq:
  "Dictionary_init d =
     (d\<lparr>d_identifier := d_identifier d + 1,
        objects := objects d @ [Dictionary (Attrs (Some (d_identifier d + 1)) 0) []]\<rparr>,
      length (objects d), Reference (d_identifier d + 1) 0)"
  by (simp add: Dictionary_init_def Object_init_objects)


lemma Font_init_eq:
  "Font_init d =
     (d\<lparr>d_identifier := d_identifier d + 1,
        objects := objects d @ [Dictionary (Attrs (Some (d_identifier d + 1)) 0)
                                  [(''Type'', Name direct ''Font'')]]\<rparr>,
      length (objects d), Reference (d_identifier d + 1) 0)"
  by (simp add: Font_init_def Dictionary_init_eq setitem_at_def)





lemma identifier_of_setitem [simp]:
  "identifier_of (Dictionary_setitem obj key v) = identifier_of obj"
  by (cases obj) (simp_all add: identifier_of_def)

lemma reference_setitem [simp]:
  "reference (Dictionary_setitem obj key v) = reference obj"
  by (cases obj) (simp_all add: reference_def)










lemma getitem_setitem_dict:
  "Dictionary_getitem obj k0 = Inr w \<Longrightarrow>
   Dictionary_getitem (Dictionary_setitem obj key v) k =
     (if k = key then Inr v else Dictionary_getitem obj k)"
  by (cases obj) (simp_all add: update_conv')

















subsection \<open>The first write of a document\<close>

lemma write_objects_Inr:
  "write_objects objs xt fl = Inr (xt', fl') \<Longrightarrow>
   \<exists>bodies. mapE indirect_bytes objs = Inr bodies \<and>
     fl' = fl @ lines_of bodies \<and>
     xref_objects xt' = xref_objects xt @ objs \<and>
     addresses xt' = addresses xt @ offsets (length fl) bodies"
proof (induction objs arbitrary: xt fl)
  case Nil
  then show ?case by (simp add: lines_of_def)
next
  case (Cons obj objs)
  from Cons.prems obtain b where b: "indirect_bytes obj = Inr b"
    and rest: "write_objects objs (XRefTable_append xt obj (length fl)) (out fl b) = Inr (xt', fl')"
    by (auto simp add: Let_def split: sum.splits)
  from Cons.IH [OF rest] obtain bodies where
    "mapE indirect_bytes objs = Inr bodies"
    "fl' = out fl b @ lines_of bodies"
    "xref_objects xt' = xref_objects (XRefTable_append xt obj (length fl)) @ objs"
    "addresses xt' = addresses (XRefTable_append xt obj (length fl)) @ offsets (length (out fl b)) bodies"
    by blast
  with b show ?case
    by (intro exI [of _ "b # bodies"]) (simp add: lines_of_def out_def XRefTable_append_def)
qed

lemma mapE_Inr_length: "mapE f xs = Inr ys \<Longrightarrow> length ys = length xs"
  by (induction xs arbitrary: ys) (auto split: sum.splits)

lemma mapE_Inr_nth: "mapE f xs = Inr ys \<Longrightarrow> i < length xs \<Longrightarrow> f (xs ! i) = Inr (ys ! i)"
  by (induction xs arbitrary: ys i) (auto split: sum.splits simp add: nth_Cons')

lemma offsets_length [simp]: "length (offsets start bodies) = length bodies"
  by (induction bodies arbitrary: start) simp_all

lemma offsets_nth:
  "i < length bodies \<Longrightarrow> offsets start bodies ! i = start + length (lines_of (take i bodies))"
proof (induction bodies arbitrary: start i)
  case Nil
  then show ?case by simp
next
  case (Cons b bs)
  show ?case
  proof (cases i)
    case 0
    then show ?thesis by (simp add: lines_of_def)
  next
    case (Suc j)
    with Cons.prems have "j < length bs" by simp
    from Cons.IH [OF this] Suc show ?thesis by (simp add: lines_of_def)
  qed
qed

lemma lines_of_split:
  "i < length bodies \<Longrightarrow>
   lines_of bodies = lines_of (take i bodies) @ (bodies ! i @ [newline]) @ lines_of (drop (Suc i) bodies)"
proof -
  assume "i < length bodies"
  then have "bodies = take i bodies @ bodies ! i # drop (Suc i) bodies"
    by (rule id_take_nth_drop)
  then have "lines_of bodies = lines_of (take i bodies @ bodies ! i # drop (Suc i) bodies)"
    by simp
  then show ?thesis by (simp add: lines_of_def)
qed

lemma last_lines_of:
  "pre \<noteq> [] \<Longrightarrow> last pre = newline \<Longrightarrow> last (pre @ lines_of bodies) = newline"
  by (induction bodies rule: rev_induct) (simp_all add: lines_of_def)

lemma Document_write_Inr:
  assumes "Document_write d fl = Inr (d', output)"
  shows "\<exists>xt f3 table t tb.
      write_objects (objects d) (xref_table d) (fl @ file_header) = Inr (xt, f3) \<and>
      d' = d\<lparr>xref_table := xt\<rparr> \<and> XRefTable_bytes xt = Inr table \<and>
      trailer_dict d xt = Inr t \<and> Object_bytes t = Inr tb \<and>
      output = f3 @ table @ [newline] @ file_trailer tb (length f3)"
  using assms
  by (auto simp add: Document_write_def Let_def out_def file_header_def file_trailer_def
        split: sum.splits)

lemma file_header_not_empty: "file_header \<noteq> []"
  by (simp add: file_header_def binary_marker_def)

lemma file_header_last: "last (fl @ file_header) = newline"
  by (simp add: file_header_def binary_marker_def)

lemma indirect_bytes_header:
  "indirect_bytes obj = Inr b \<Longrightarrow>
   \<exists>a. attrs_of obj = Some a \<and> take (length (indirect_header a)) b = indirect_header a"
  by (auto simp add: indirect_bytes_def split: option.splits sum.splits)

text \<open>
  C6. When a document whose cross-reference table is still empty is written, the write
  records one address per registered object, and at the address recorded for an object
  the output holds that object's indirect bytes followed by a newline, which begin with
  its line \<open>{identifier} {generation} obj\<close>; the address is the start of a line.
\<close>

theorem xref_offsets_accurate:
  assumes w: "Document_write d fl = Inr (d', output)"
    and first: "xref_table d = XRefTable_init"
    and i: "i < length (objects d)"
  shows "\<exists>a b. attrs_of (objects d ! i) = Some a \<and> indirect_bytes (objects d ! i) = Inr b \<and>
     length (addresses (xref_table d')) = length (objects d) \<and>
     take (length (indirect_header a)) (drop (addresses (xref_table d') ! i) output)
       = indirect_header a \<and>
     take (length b + 1) (drop (addresses (xref_table d') ! i) output) = b @ [newline] \<and>
     0 < addresses (xref_table d') ! i \<and>
     output ! (addresses (xref_table d') ! i - 1) = newline"
proof -
  from Document_write_Inr [OF w] obtain xt f3 table tb where
    wo: "write_objects (objects d) (xref_table d) (fl @ file_header) = Inr (xt, f3)"
    and d': "d' = d\<lparr>xref_table := xt\<rparr>"
    and out_eq: "output = f3 @ table @ [newline] @ file_trailer tb (length f3)"
    by blast
  from write_objects_Inr [OF wo] first obtain bodies where
    bodies: "mapE indirect_bytes (objects d) = Inr bodies"
    and f3: "f3 = (fl @ file_header) @ lines_of bodies"
    and addrs: "addresses xt = offsets (length (fl @ file_header)) bodies"
    by (auto simp add: XRefTable_init_def)
  from bodies have len: "length bodies = length (objects d)" by (rule mapE_Inr_length)
  from bodies i have b: "indirect_bytes (objects d ! i) = Inr (bodies ! i)" by (rule mapE_Inr_nth)
  from indirect_bytes_header [OF b] obtain a where
    a: "attrs_of (objects d ! i) = Some a"
    and hd: "take (length (indirect_header a)) (bodies ! i) = indirect_header a"
    by blast
  define pre where "pre = (fl @ file_header) @ lines_of (take i bodies)"
  define rest where
    "rest = lines_of (drop (Suc i) bodies) @ table @ [newline] @ file_trailer tb (length f3)"
  from i len have addr: "addresses (xref_table d') ! i = length pre"
    by (simp add: pre_def d' addrs offsets_nth)
  from i len have sp: "output = pre @ (bodies ! i @ [newline]) @ rest"
    using lines_of_split [of i bodies] by (simp add: pre_def rest_def out_eq f3)
  have dr: "drop (length pre) output = (bodies ! i @ [newline]) @ rest"
    by (simp add: sp)
  have t1: "take (length (bodies ! i) + 1) (drop (length pre) output) = bodies ! i @ [newline]"
    unfolding dr by simp
  have "length (indirect_header a) \<le> length (bodies ! i)"
    using hd by (metis length_take min.cobounded2 min.commute)
  then have t2: "take (length (indirect_header a)) (drop (length pre) output) = indirect_header a"
    unfolding dr using hd by simp
  have ne: "pre \<noteq> []" by (simp add: pre_def file_header_not_empty)
  have lp: "last pre = newline"
    unfolding pre_def
    by (rule last_lines_of) (simp_all add: file_header_not_empty file_header_last)
  from ne have pos: "0 < length pre" by simp
  have "output ! (length pre - 1) = pre ! (length pre - 1)"
    using pos by (simp add: sp nth_append)
  also have "\<dots> = last pre" using ne by (simp add: last_conv_nth)
  finally have sol: "output ! (length pre - 1) = newline" using lp by simp
  from a b len t1 t2 pos sol show ?thesis
    unfolding addr by (simp add: d' addrs)
qed

theorem xref_offsets_accurate_witness:
  "\<exists>d' output.
     Document_write Document_init [] = Inr (d', output) \<and>
     xref_table Document_init = XRefTable_init \<and>
     (1 :: nat) < length (objects Document_init) \<and>
     (\<exists>a b. attrs_of (objects Document_init ! 1) = Some a \<and>
        indirect_bytes (objects Document_init ! 1) = Inr b \<and>
        length (addresses (xref_table d')) = length (objects Document_init) \<and>
        take (length (indirect_header a)) (drop (addresses (xref_table d') ! 1) output)
          = indirect_header a \<and>
        take (length b + 1) (drop (addresses (xref_table d') ! 1) output) = b @ [newline] \<and>
        0 < addresses (xref_table d') ! 1 \<and>
        output ! (addresses (xref_table d') ! 1 - 1) = newline)"
proof -
  have "case Document_write Document_init [] of Inl e \<Rightarrow> False | Inr r \<Rightarrow> True"
    by code_simp
  then obtain d' outp where w: "Document_write Document_init [] = Inr (d', outp)"
    by (auto split: sum.splits)
  have first: "xref_table Document_init = XRefTable_init" by code_simp
  have i: "(1 :: nat) < length (objects Document_init)" by code_simp
  from xref_offsets_accurate [OF w first i] w first i show ?thesis by blast
qed

lemma mapE_xref_entry:
  "mapE xref_entry (zip objs addrs) = Inr entries \<Longrightarrow> length addrs = length objs \<Longrightarrow>
   \<exists>gens. mapE generation objs = Inr gens \<and>
     entries = map (\<lambda>l. newline # l) (map2 xref_line addrs gens)"
proof (induction objs arbitrary: addrs entries)
  case Nil
  then show ?case by simp
next
  case (Cons obj objs)
  from Cons.prems(2) obtain a as where addrs: "addrs = a # as" and len: "length as = length objs"
    by (cases addrs) simp_all
  from Cons.prems(1) addrs obtain e es where e: "xref_entry (obj, a) = Inr e"
    and es: "mapE xref_entry (zip objs as) = Inr es"
    and e_es: "entries = e # es"
    by (auto split: sum.splits)
  from e obtain g where g: "generation obj = Inr g" and "e = newline # xref_line a g"
    by (auto simp add: xref_entry_def xref_line_def split: sum.splits)
  with e_es have entries: "entries = (newline # xref_line a g) # es" by simp
  from Cons.IH [OF es len] obtain gens where
    "mapE generation objs = Inr gens" "es = map (\<lambda>l. newline # l) (map2 xref_line as gens)"
    by blast
  with g entries addrs show ?case by (intro exI [of _ "g # gens"]) simp
qed

lemma join_newline:
  "join [newline] (x # xs) = x @ concat (map (\<lambda>l. newline # l) xs)"
  by (induction xs arbitrary: x) simp_all

lemma dec_length: "n < 10 ^ k \<Longrightarrow> 0 < k \<Longrightarrow> length (dec n) \<le> k"
proof (induction k arbitrary: n)
  case 0
  then show ?case by simp
next
  case (Suc k)
  show ?case
  proof (cases "n < 10")
    case True
    then show ?thesis by (simp add: dec.simps [of n])
  next
    case False
    with Suc.prems have "n div 10 < 10 ^ k" by (simp add: less_mult_imp_div_less mult.commute)
    moreover from False Suc.prems have "0 < k" by (cases k) simp_all
    ultimately have "length (dec (n div 10)) \<le> k" by (rule Suc.IH)
    with False show ?thesis by (simp add: dec.simps [of n])
  qed
qed

lemma format_0d_length: "length (dec n) \<le> w \<Longrightarrow> length (format_0d w (int n)) = w"
  by (simp add: format_0d_def)

lemma xref_line_length:
  "address < 10 ^ 10 \<Longrightarrow> g < 10 ^ 5 \<Longrightarrow> length (xref_line address g) = 19"
  using dec_length [of address 10] dec_length [of g 5]
  by (simp add: xref_line_def format_0d_length)

text \<open>
  The cross-reference table as a list of lines, for any table whose two lists have the
  same length (\<open>append\<close> adds to both): N is the number of objects in the table.
\<close>

lemma XRefTable_str_layout:
  assumes s: "XRefTable_str xt = Inr s"
    and len: "length (addresses xt) = length (xref_objects xt)"
  shows "\<exists>gens. mapE generation (xref_objects xt) = Inr gens \<and>
     s = join [newline]
           ([''xref'', ''0 '' @ dec (length (xref_objects xt) + 1), ''0000000000 65535 f '']
            @ map2 xref_line (addresses xt) gens)"
proof -
  from s obtain entries where
    entries: "mapE xref_entry (zip (xref_objects xt) (addresses xt)) = Inr entries"
    and s_eq: "s = ''xref'' @ [newline] @ ''0 '' @ dec (length (xref_objects xt) + 1)
               @ [newline] @ ''0000000000 65535 f '' @ concat entries"
    by (auto simp add: XRefTable_str_def split: sum.splits)
  from mapE_xref_entry [OF entries len] obtain gens where
    gens: "mapE generation (xref_objects xt) = Inr gens"
    and e_eq: "entries = map (\<lambda>l. newline # l) (map2 xref_line (addresses xt) gens)"
    by blast
  have "s = join [newline]
           ([''xref'', ''0 '' @ dec (length (xref_objects xt) + 1), ''0000000000 65535 f '']
            @ map2 xref_line (addresses xt) gens)"
    unfolding s_eq e_eq by (simp add: join_newline)
  with gens show ?thesis by blast
qed

text \<open>
  The first write: when a document with N registered objects and an empty
  cross-reference table is written, the table emitted at the \<open>startxref\<close> address
  consists of the lines \<open>xref\<close>, \<open>0 {N+1}\<close>, \<open>0000000000 65535 f \<close> and one line per
  object in registration order.
\<close>

lemma xref_table_layout:
  assumes w: "Document_write d fl = Inr (d', output)"
    and first: "xref_table d = XRefTable_init"
  shows "\<exists>s gens pre tb.
     XRefTable_str (xref_table d') = Inr s \<and>
     mapE generation (objects d) = Inr gens \<and>
     length (addresses (xref_table d')) = length (objects d) \<and>
     s = join [newline]
           ([''xref'', ''0 '' @ dec (length (objects d) + 1), ''0000000000 65535 f '']
            @ map2 xref_line (addresses (xref_table d')) gens) \<and>
     output = pre @ utf_8 s @ [newline] @ file_trailer tb (length pre)"
proof -
  from Document_write_Inr [OF w] obtain xt f3 table tb where
    wo: "write_objects (objects d) (xref_table d) (fl @ file_header) = Inr (xt, f3)"
    and d': "d' = d\<lparr>xref_table := xt\<rparr>"
    and table: "XRefTable_bytes xt = Inr table"
    and out_eq: "output = f3 @ table @ [newline] @ file_trailer tb (length f3)"
    by blast
  from write_objects_Inr [OF wo] first obtain bodies where
    bodies: "mapE indirect_bytes (objects d) = Inr bodies"
    and objs: "xref_objects xt = objects d"
    and addrs: "addresses xt = offsets (length (fl @ file_header)) bodies"
    by (auto simp add: XRefTable_init_def)
  from bodies have len: "length (addresses xt) = length (objects d)"
    by (simp add: addrs mapE_Inr_length)
  from table obtain s where s: "XRefTable_str xt = Inr s" and ts: "table = utf_8 s"
    by (auto simp add: XRefTable_bytes_def split: sum.splits)
  from XRefTable_str_layout [OF s] len objs obtain gens where
    gens: "mapE generation (objects d) = Inr gens"
    and "s = join [newline]
           ([''xref'', ''0 '' @ dec (length (objects d) + 1), ''0000000000 65535 f '']
            @ map2 xref_line (addresses xt) gens)"
    by auto
  with s gens len out_eq ts show ?thesis by (auto simp add: d')
qed

lemma xref_table_layout_first_write:
  "\<exists>d' output.
     Document_write Document_init [] = Inr (d', output) \<and>
     xref_table Document_init = XRefTable_init \<and>
     (\<exists>s gens pre tb.
        XRefTable_str (xref_table d') = Inr s \<and>
        mapE generation (objects Document_init) = Inr gens \<and>
        length (addresses (xref_table d')) = length (objects Document_init) \<and>
        s = join [newline]
              ([''xref'', ''0 '' @ dec (length (objects Document_init) + 1),
                ''0000000000 65535 f '']
               @ map2 xref_line (addresses (xref_table d')) gens) \<and>
        output = pre @ utf_8 s @ [newline] @ file_trailer tb (length pre))"
proof -
  have "case Document_write Document_init [] of Inl e \<Rightarrow> False | Inr r \<Rightarrow> True"
    by code_simp
  then obtain d' outp where w: "Document_write Document_init [] = Inr (d', outp)"
    by (auto split: sum.splits)
  have first: "xref_table Document_init = XRefTable_init" by code_simp
  from xref_table_layout [OF w first] w first show ?thesis by blast
qed

text \<open>
  C5. The claim gives every document with N registered objects a table of the line
  \<open>0 {N+1}\<close> and one entry per object. \<open>write\<close> keeps the entries of earlier writes in
  the table of the document: the second write of a new document, which has 2
  registered objects, emits \<open>0 5\<close> and four entries, each object twice.
\<close>

theorem xref_table_second_write:
  "(case Document_write Document_init [] of Inl e \<Rightarrow> False
    | Inr (d1, first) \<Rightarrow>
       (case Document_write d1 [] of Inl e \<Rightarrow> False
        | Inr (d2, second) \<Rightarrow>
            length (objects d1) = 2 \<and>
            XRefTable_str (xref_table d2) =
              Inr (join [newline]
                     [''xref'', ''0 5'', ''0000000000 65535 f '',
                      ''0000000015 00000 n '', ''0000000067 00000 n '',
                      ''0000000015 00000 n '', ''0000000067 00000 n ''])))"
  by code_simp

subsection \<open>Font registration\<close>

lemma Document_register_font_miss:
  assumes "is_core f" and "map_of (fonts bd) f = None"
  shows "Document_register_font bd f =
     Inr (bd\<lparr>pdf_document := (pdf_document bd)
               \<lparr>d_identifier := d_identifier (pdf_document bd) + 1,
                objects := objects (pdf_document bd)
                   @ [Font_dict (d_identifier (pdf_document bd) + 1) (ps_name f)]\<rparr>,
             fonts := AList.update f (length (objects (pdf_document bd))) (fonts bd)\<rparr>,
          length (objects (pdf_document bd)))"
  using assms
  by (simp add: Document_register_font_def Font_init_eq setitem_at_def Font_dict_def)

lemma Document_register_font_hit:
  "map_of (fonts bd) f = Some rsc \<Longrightarrow> Document_register_font bd f = Inr (bd, rsc)"
  by (simp add: Document_register_font_def)

lemma update_appended:
  "map_of items k = None \<Longrightarrow> AList.update k v (items @ [(k, w)]) = AList.update k v items"
  by (induction items) (auto split: if_splits)

lemma is_DictionaryE: "is_Dictionary obj \<Longrightarrow> \<exists>a items. obj = Dictionary a items"
  by (cases obj) simp_all

lemma page_ready_Resources:
  assumes "page_ready bd p"
  shows "\<exists>a items R1 b fs.
     Dictionary_getitem (objects (pdf_document bd) ! pdf_page (doc_pages bd ! p)) ''Resources''
       = Inr (Dictionary a items) \<and>
     Dictionary_setdefault (Dictionary a items) ''Font'' (Dictionary direct [])
       = Inr (R1, Dictionary b fs) \<and>
     (\<forall>v. Dictionary_setitem R1 ''Font'' v = Dictionary a (AList.update ''Font'' v items))"
proof -
  from assms obtain R where R: "Dictionary_getitem (objects (pdf_document bd)
      ! pdf_page (doc_pages bd ! p)) ''Resources'' = Inr R"
    and dict: "is_Dictionary R"
    and fd: "case Dictionary_getitem R ''Font'' of Inl e \<Rightarrow> True
             | Inr fonts_dict \<Rightarrow> is_Dictionary fonts_dict"
    by (auto simp add: page_ready_def split: sum.splits)
  from dict obtain a items where Rd: "R = Dictionary a items"
    using is_DictionaryE by blast
  show ?thesis
  proof (cases "map_of items ''Font''")
    case None
    with R Rd show ?thesis by (simp add: update_appended)
  next
    case (Some v)
    with fd Rd have "is_Dictionary v" by simp
    then obtain b fs where "v = Dictionary b fs" using is_DictionaryE by blast
    with Some R Rd show ?thesis by simp
  qed
qed

lemma Page_register_font_miss:
  assumes "p < length (doc_pages bd)"
    and "map_of (font_names (doc_pages bd ! p)) f = None"
    and "Document_register_font bd f = Inr (bd1, rsc)"
    and "Dictionary_getitem (objects (pdf_document bd1) ! pdf_page (doc_pages bd ! p)) ''Resources''
           = Inr (Dictionary a items)"
    and "Dictionary_setdefault (Dictionary a items) ''Font'' (Dictionary direct [])
           = Inr (R1, Dictionary b fs)"
    and "reference (objects (pdf_document bd1) ! rsc) = Inr r"
  shows "Page_register_font bd p f =
     Inr (bd1\<lparr>pdf_document :=
                 setitem_at (pdf_document bd1) (pdf_page (doc_pages bd ! p)) ''Resources''
                   (Dictionary_setitem R1 ''Font''
                      (Dictionary b (AList.update (''F'' @ dec (font_number (doc_pages bd ! p))) r fs))),
               doc_pages := (doc_pages bd1)
                 [p := (doc_pages bd ! p)
                    \<lparr>font_number := font_number (doc_pages bd ! p) + 1,
                     font_names := AList.update f (''F'' @ dec (font_number (doc_pages bd ! p)))
                                     (font_names (doc_pages bd ! p))\<rparr>]\<rparr>,
          ''F'' @ dec (font_number (doc_pages bd ! p)))"
  using assms by (simp add: Page_register_font_def Let_def)

lemma Page_register_font_hit:
  "p < length (doc_pages bd) \<Longrightarrow> map_of (font_names (doc_pages bd ! p)) f = Some name \<Longrightarrow>
   Page_register_font bd p f = Inr (bd, name)"
  by (simp add: Page_register_font_def)

lemma page_font_entry_recorded:
  assumes "Dictionary_getitem obj k0 = Inr w"
    and "objects (pdf_document bd) ! pdf_page (doc_pages bd ! p)
           = Dictionary_setitem obj ''Resources''
               (Dictionary a (AList.update ''Font'' (Dictionary b (AList.update name r fs)) items))"
  shows "page_font_entry bd p name = Some r"
  using assms
  by (simp add: page_font_entry_def getitem_setitem_dict [OF assms(1)] update_conv')

lemma Backend_Page_init_fresh:
  "Backend_Page_init bd w h = Inr (bd', k) \<Longrightarrow>
   k = length (doc_pages bd) \<and> font_number (doc_pages bd' ! k) = 1 \<and>
   font_names (doc_pages bd' ! k) = []"
  by (auto simp add: Backend_Page_init_def Let_def split: sum.splits)

text \<open>
  C9. Let a core font be new to the document and to two different pages that can take
  a font. Registering it on the first page and then on the second returns on each page
  the alias \<open>F\<close> followed by that page's own font number and adds one to that number
  only; the Font dictionary is created by the first registration and the second adds no
  object; both pages record, under their alias in \<open>Resources/Font\<close>, the reference of that
  one Font dictionary; registering again on either page returns the same alias and
  changes nothing. A new page starts at font number 1 (\<open>Backend_Page_init_fresh\<close>).
\<close>

theorem register_font_two_pages:
  assumes core: "is_core f"
    and new_doc: "map_of (fonts bd) f = None"
    and new_p: "map_of (font_names (doc_pages bd ! p)) f = None"
    and new_q: "map_of (font_names (doc_pages bd ! q)) f = None"
    and ready_p: "page_ready bd p" and ready_q: "page_ready bd q"
    and pq: "p \<noteq> q"
    and lpq: "pdf_page (doc_pages bd ! p) \<noteq> pdf_page (doc_pages bd ! q)"
  shows "\<exists>bd1 bd2 rsc r.
     Page_register_font bd p f = Inr (bd1, ''F'' @ dec (font_number (doc_pages bd ! p))) \<and>
     Page_register_font bd1 q f = Inr (bd2, ''F'' @ dec (font_number (doc_pages bd ! q))) \<and>
     map_of (fonts bd1) f = Some rsc \<and> fonts bd2 = fonts bd1 \<and>
     length (objects (pdf_document bd1)) = length (objects (pdf_document bd)) + 1 \<and>
     length (objects (pdf_document bd2)) = length (objects (pdf_document bd1)) \<and>
     objects (pdf_document bd1) ! rsc
       = Font_dict (d_identifier (pdf_document bd) + 1) (ps_name f) \<and>
     objects (pdf_document bd2) ! rsc = objects (pdf_document bd1) ! rsc \<and>
     reference (objects (pdf_document bd2) ! rsc) = Inr r \<and>
     page_font_entry bd2 p (''F'' @ dec (font_number (doc_pages bd ! p))) = Some r \<and>
     page_font_entry bd2 q (''F'' @ dec (font_number (doc_pages bd ! q))) = Some r \<and>
     font_number (doc_pages bd2 ! p) = font_number (doc_pages bd ! p) + 1 \<and>
     font_number (doc_pages bd2 ! q) = font_number (doc_pages bd ! q) + 1 \<and>
     Page_register_font bd2 p f = Inr (bd2, ''F'' @ dec (font_number (doc_pages bd ! p))) \<and>
     Page_register_font bd2 q f = Inr (bd2, ''F'' @ dec (font_number (doc_pages bd ! q)))"
proof -
  define objs where "objs = objects (pdf_document bd)"
  define n where "n = length objs"
  define i where "i = d_identifier (pdf_document bd) + 1"
  define fo where "fo = Font_dict i (ps_name f)"
  define r where "r = Reference i 0"
  define Pp where "Pp = doc_pages bd ! p"
  define Pq where "Pq = doc_pages bd ! q"
  define lp where "lp = pdf_page Pp"
  define lq where "lq = pdf_page Pq"
  define namep where "namep = ''F'' @ dec (font_number Pp)"
  define nameq where "nameq = ''F'' @ dec (font_number Pq)"
  from ready_p have p: "p < length (doc_pages bd)" and lp: "lp < n"
    by (simp_all add: page_ready_def lp_def Pp_def n_def objs_def)
  from ready_q have q: "q < length (doc_pages bd)" and lq: "lq < n"
    by (simp_all add: page_ready_def lq_def Pq_def n_def objs_def)
  from lpq have neq: "lp \<noteq> lq" by (simp add: lp_def lq_def Pp_def Pq_def)
  from page_ready_Resources [OF ready_p] obtain ap itp R1p bp fsp where
    resp: "Dictionary_getitem (objs ! lp) ''Resources'' = Inr (Dictionary ap itp)"
    and sdp: "Dictionary_setdefault (Dictionary ap itp) ''Font'' (Dictionary direct [])
                = Inr (R1p, Dictionary bp fsp)"
    and setp: "\<And>v. Dictionary_setitem R1p ''Font'' v = Dictionary ap (AList.update ''Font'' v itp)"
    unfolding objs_def lp_def Pp_def by blast
  from page_ready_Resources [OF ready_q] obtain aq itq R1q bq fsq where
    resq: "Dictionary_getitem (objs ! lq) ''Resources'' = Inr (Dictionary aq itq)"
    and sdq: "Dictionary_setdefault (Dictionary aq itq) ''Font'' (Dictionary direct [])
                = Inr (R1q, Dictionary bq fsq)"
    and setq: "\<And>v. Dictionary_setitem R1q ''Font'' v = Dictionary aq (AList.update ''Font'' v itq)"
    unfolding objs_def lq_def Pq_def by blast
  define Rp where
    "Rp = Dictionary ap (AList.update ''Font'' (Dictionary bp (AList.update namep r fsp)) itp)"
  define Rq where
    "Rq = Dictionary aq (AList.update ''Font'' (Dictionary bq (AList.update nameq r fsq)) itq)"
  define Pp' where
    "Pp' = Pp\<lparr>font_number := font_number Pp + 1,
              font_names := AList.update f namep (font_names Pp)\<rparr>"
  define Pq' where
    "Pq' = Pq\<lparr>font_number := font_number Pq + 1,
              font_names := AList.update f nameq (font_names Pq)\<rparr>"
  define bdA where
    "bdA = bd\<lparr>pdf_document := (pdf_document bd)\<lparr>d_identifier := i, objects := objs @ [fo]\<rparr>,
              fonts := AList.update f n (fonts bd)\<rparr>"
  define bd1 where
    "bd1 = bdA\<lparr>pdf_document := setitem_at (pdf_document bdA) lp ''Resources'' Rp,
               doc_pages := (doc_pages bdA)[p := Pp']\<rparr>"
  define bd2 where
    "bd2 = bd1\<lparr>pdf_document := setitem_at (pdf_document bd1) lq ''Resources'' Rq,
               doc_pages := (doc_pages bd1)[q := Pq']\<rparr>"
  have docA: "Document_register_font bd f = Inr (bdA, n)"
    using Document_register_font_miss [OF core new_doc]
    by (simp add: bdA_def n_def objs_def i_def fo_def)
  have objsA: "objects (pdf_document bdA) = objs @ [fo]" by (simp add: bdA_def)
  have refA: "reference (objects (pdf_document bdA) ! n) = Inr r"
    by (simp add: objsA n_def fo_def Font_dict_def reference_def r_def)
  have resA: "Dictionary_getitem (objects (pdf_document bdA) ! pdf_page (doc_pages bd ! p))
                ''Resources'' = Inr (Dictionary ap itp)"
    using lp resp by (simp add: objsA nth_append n_def lp_def Pp_def)
  have step1: "Page_register_font bd p f = Inr (bd1, namep)"
    using Page_register_font_miss [OF p new_p docA resA sdp refA]
    by (simp add: bd1_def setp Rp_def Pp'_def namep_def Pp_def lp_def)
  have pages1: "doc_pages bd1 = (doc_pages bd)[p := Pp']" by (simp add: bd1_def bdA_def)
  have objs1: "objects (pdf_document bd1)
                 = (objs @ [fo])[lp := Dictionary_setitem (objs ! lp) ''Resources'' Rp]"
    using lp by (simp add: bd1_def setitem_at_def objsA nth_append n_def)
  have fonts1: "map_of (fonts bd1) f = Some n"
    by (simp add: bd1_def bdA_def update_conv')
  have doc1: "Document_register_font bd1 f = Inr (bd1, n)"
    using fonts1 by (rule Document_register_font_hit)
  have q1: "q < length (doc_pages bd1)" using q by (simp add: pages1)
  have Pq1: "doc_pages bd1 ! q = Pq" using pq q by (simp add: pages1 Pq_def)
  have newq1: "map_of (font_names (doc_pages bd1 ! q)) f = None"
    using new_q by (simp add: Pq1 Pq_def)
  have nth_lq: "objects (pdf_document bd1) ! lq = objs ! lq"
    using lq neq by (simp add: objs1 nth_append n_def)
  have nth_n: "objects (pdf_document bd1) ! n = fo"
    using lp by (simp add: objs1 n_def)
  have res1: "Dictionary_getitem (objects (pdf_document bd1) ! pdf_page (doc_pages bd1 ! q))
                ''Resources'' = Inr (Dictionary aq itq)"
    using resq by (simp add: Pq1 nth_lq lq_def [symmetric])
  have ref1: "reference (objects (pdf_document bd1) ! n) = Inr r"
    by (simp add: nth_n fo_def Font_dict_def reference_def r_def)
  have step2: "Page_register_font bd1 q f = Inr (bd2, nameq)"
    using Page_register_font_miss [OF q1 newq1 doc1 res1 sdq ref1]
    by (simp add: bd2_def setq Rq_def Pq'_def nameq_def Pq1 lq_def)
  have pages2: "doc_pages bd2 = (doc_pages bd)[p := Pp', q := Pq']"
    by (simp add: bd2_def pages1)
  have objs2: "objects (pdf_document bd2)
     = (objs @ [fo])[lp := Dictionary_setitem (objs ! lp) ''Resources'' Rp,
                     lq := Dictionary_setitem (objs ! lq) ''Resources'' Rq]"
    using nth_lq by (simp add: bd2_def setitem_at_def objs1)
  have Pp2: "doc_pages bd2 ! p = Pp'" using pq p by (simp add: pages2)
  have Pq2: "doc_pages bd2 ! q = Pq'" using q by (simp add: pages2)
  have nth2_lp: "objects (pdf_document bd2) ! lp = Dictionary_setitem (objs ! lp) ''Resources'' Rp"
    using lp neq by (simp add: objs2 n_def)
  have nth2_lq: "objects (pdf_document bd2) ! lq = Dictionary_setitem (objs ! lq) ''Resources'' Rq"
    using lq by (simp add: objs2 n_def)
  have nth2_n: "objects (pdf_document bd2) ! n = fo"
    using lp lq by (simp add: objs2 n_def)
  have entry_p: "page_font_entry bd2 p namep = Some r"
    by (rule page_font_entry_recorded [OF resp]) (simp add: Pp2 Pp'_def lp_def [symmetric] nth2_lp Rp_def)
  have entry_q: "page_font_entry bd2 q nameq = Some r"
    by (rule page_font_entry_recorded [OF resq]) (simp add: Pq2 Pq'_def lq_def [symmetric] nth2_lq Rq_def)
  have len2: "length (doc_pages bd2) = length (doc_pages bd)" by (simp add: pages2)
  have hit_p: "Page_register_font bd2 p f = Inr (bd2, namep)"
    by (rule Page_register_font_hit) (simp add: len2 p, simp add: Pp2 Pp'_def update_conv')
  have hit_q: "Page_register_font bd2 q f = Inr (bd2, nameq)"
    by (rule Page_register_font_hit) (simp add: len2 q, simp add: Pq2 Pq'_def update_conv')
  have "fonts bd2 = fonts bd1" by (simp add: bd2_def)
  moreover have "length (objects (pdf_document bd1)) = length (objects (pdf_document bd)) + 1"
    by (simp add: objs1 objs_def)
  moreover have "length (objects (pdf_document bd2)) = length (objects (pdf_document bd1))"
    by (simp add: objs1 objs2)
  moreover have "objects (pdf_document bd1) ! n
                   = Font_dict (d_identifier (pdf_document bd) + 1) (ps_name f)"
    by (simp add: nth_n fo_def i_def)
  moreover have "objects (pdf_document bd2) ! n = objects (pdf_document bd1) ! n"
    by (simp add: nth_n nth2_n)
  moreover have "reference (objects (pdf_document bd2) ! n) = Inr r"
    by (simp add: nth2_n fo_def Font_dict_def reference_def r_def)
  moreover have "font_number (doc_pages bd2 ! p) = font_number (doc_pages bd ! p) + 1"
    by (simp add: Pp2 Pp'_def Pp_def)
  moreover have "font_number (doc_pages bd2 ! q) = font_number (doc_pages bd ! q) + 1"
    by (simp add: Pq2 Pq'_def Pq_def)
  ultimately show ?thesis
    using step1 step2 fonts1 entry_p entry_q hit_p hit_q
    unfolding namep_def nameq_def Pp_def Pq_def
    by (intro exI [of _ bd1] exI [of _ bd2] exI [of _ n] exI [of _ r]) simp
qed

theorem register_font_two_pages_witness:
  "is_core helvetica \<and> map_of (fonts two_pages) helvetica = None \<and>
   page_ready two_pages 0 \<and> page_ready two_pages 1 \<and>
   (\<exists>bd1 bd2 rsc r.
     Page_register_font two_pages 0 helvetica = Inr (bd1, ''F1'') \<and>
     Page_register_font bd1 1 helvetica = Inr (bd2, ''F1'') \<and>
     map_of (fonts bd1) helvetica = Some rsc \<and> fonts bd2 = fonts bd1 \<and>
     length (objects (pdf_document bd1)) = length (objects (pdf_document two_pages)) + 1 \<and>
     length (objects (pdf_document bd2)) = length (objects (pdf_document bd1)) \<and>
     objects (pdf_document bd1) ! rsc
       = Font_dict (d_identifier (pdf_document two_pages) + 1) (ps_name helvetica) \<and>
     objects (pdf_document bd2) ! rsc = objects (pdf_document bd1) ! rsc \<and>
     reference (objects (pdf_document bd2) ! rsc) = Inr r \<and>
     page_font_entry bd2 0 ''F1'' = Some r \<and>
     page_font_entry bd2 1 ''F1'' = Some r \<and>
     font_number (doc_pages bd2 ! 0) = font_number (doc_pages two_pages ! 0) + 1 \<and>
     font_number (doc_pages bd2 ! 1) = font_number (doc_pages two_pages ! 1) + 1 \<and>
     Page_register_font bd2 0 helvetica = Inr (bd2, ''F1'') \<and>
     Page_register_font bd2 1 helvetica = Inr (bd2, ''F1''))"
proof -
  have core: "is_core helvetica" by code_simp
  have new_doc: "map_of (fonts two_pages) helvetica = None" by code_simp
  have new_p: "map_of (font_names (doc_pages two_pages ! 0)) helvetica = None" by code_simp
  have new_q: "map_of (font_names (doc_pages two_pages ! 1)) helvetica = None" by code_simp
  have ready_p: "page_ready two_pages 0" by code_simp
  have ready_q: "page_ready two_pages 1" by code_simp
  have pq: "(0 :: nat) \<noteq> 1" by simp
  have lpq: "pdf_page (doc_pages two_pages ! 0) \<noteq> pdf_page (doc_pages two_pages ! 1)"
    by code_simp
  have n0: "''F'' @ dec (font_number (doc_pages two_pages ! 0)) = ''F1''" by code_simp
  have n1: "''F'' @ dec (font_number (doc_pages two_pages ! 1)) = ''F1''" by code_simp
  from register_font_two_pages [OF core new_doc new_p new_q ready_p ready_q pq lpq]
  show ?thesis unfolding n0 n1 using core new_doc ready_p ready_q by blast
qed

end
